theory Spec2Isabelle
  imports Complex_Main "HOL-Library.Multiset"
begin

section \<open>PaySim fraud-monitoring demo: data model\<close>

text \<open>
  The repository has two programs that the properties below are about:
  \<^item> \<^verbatim>\<open>src/server/mcp_server_paysim.py\<close>: \<^verbatim>\<open>resource_read\<close>, \<^verbatim>\<open>tool_get_account_kpi\<close> and
    \<^verbatim>\<open>tool_detect_suspicious\<close>, each a SQL query over the table \<^verbatim>\<open>transactions\<close>
    followed by a little Python;
  \<^item> \<^verbatim>\<open>src/ui/app.py\<close>: \<^verbatim>\<open>risk_label\<close> and \<^verbatim>\<open>build_insights\<close>, the scoring engine.

  Conventions of the embedding.
  \<^item> Python \<^verbatim>\<open>float\<close> and PostgreSQL \<^verbatim>\<open>NUMERIC\<close> values are real numbers: no rounding, no NaN,
    no infinities. Python \<^verbatim>\<open>int\<close> is \<^typ>\<open>int\<close>.
  \<^item> Strings are byte strings; the accented letters of the French labels are written as their
    UTF-8 bytes.
  \<^item> A Python \<^verbatim>\<open>dict\<close> whose keys are read with \<^verbatim>\<open>.get\<close> is a record of optional fields:
    \<open>None\<close> is "key absent" (a key holding JSON \<^verbatim>\<open>null\<close> is read the same way by every
    \<^verbatim>\<open>.get(k, d) or d\<close> of the source). A key that is present holds a value of its type, so the
    conversions \<^verbatim>\<open>int(...)\<close>, \<^verbatim>\<open>float(...)\<close> of the source cannot raise.
  \<^item> The table \<^verbatim>\<open>transactions\<close> is the list of its rows, in the order the database enumerates
    them; every column is non-null. Connection failures of the database are outside the model.
\<close>

subsection \<open>Rows of the table \<^verbatim>\<open>transactions\<close>\<close>

record transaction =
  tx_id :: int
  step :: int
  ttype :: string
  amount :: real
  name_orig :: string
  oldbalance_org :: real
  newbalance_org :: real
  name_dest :: string
  oldbalance_dest :: real
  newbalance_dest :: real
  is_fraud :: bool
  is_flagged_fraud :: bool

type_synonym table = "transaction list"

subsection \<open>The dictionaries exchanged between server and dashboard\<close>

text \<open>The \<^verbatim>\<open>out\<close> and \<^verbatim>\<open>in\<close> sub-dictionaries of a KPI result, and the KPI result.\<close>

record kpi_out =
  nb_out :: "int option"
  total_out :: "real option"
  avg_out_amount :: "real option"
  fraud_out :: "int option"

record kpi_in =
  nb_in :: "int option"
  total_in :: "real option"
  avg_in_amount :: "real option"

record kpi =
  k_name :: "string option"
  k_step_from :: "int option"
  k_step_to :: "int option"
  k_out :: "kpi_out option"
  k_in :: "kpi_in option"
  k_top_out_types :: "(string \<times> int) list option"

text \<open>
  One entry of \<^verbatim>\<open>matches\<close>, and the result dictionary of the detector (its constant
  \<^verbatim>\<open>note\<close> text is left out).
\<close>

record match =
  m_id :: int
  m_step :: int
  m_type :: string
  m_amount :: real
  m_name_orig :: string
  m_name_dest :: string
  m_is_fraud :: bool

record suspicious =
  s_name :: "string option"
  s_min_amount :: "real option"
  s_window_steps :: "int option"
  s_max_rows :: "int option"
  s_matches :: "match list option"

text \<open>
  The dictionary of a transaction resource: the twelve columns, or \<^verbatim>\<open>id\<close> and \<^verbatim>\<open>found\<close> for
  an id that matches no row.
\<close>

record tx_dict =
  d_id :: "int option"
  d_step :: "int option"
  d_type :: "string option"
  d_amount :: "real option"
  d_name_orig :: "string option"
  d_oldbalance_org :: "real option"
  d_newbalance_org :: "real option"
  d_name_dest :: "string option"
  d_oldbalance_dest :: "real option"
  d_newbalance_dest :: "real option"
  d_is_fraud :: "bool option"
  d_is_flagged_fraud :: "bool option"
  d_found :: "bool option"

definition empty_kpi_out :: kpi_out where
  "empty_kpi_out =
     \<lparr>nb_out = None, total_out = None, avg_out_amount = None, fraud_out = None\<rparr>"

definition empty_kpi_in :: kpi_in where
  "empty_kpi_in = \<lparr>nb_in = None, total_in = None, avg_in_amount = None\<rparr>"

definition empty_tx_dict :: tx_dict where
  "empty_tx_dict =
     \<lparr>d_id = None, d_step = None, d_type = None, d_amount = None, d_name_orig = None,
      d_oldbalance_org = None, d_newbalance_org = None, d_name_dest = None,
      d_oldbalance_dest = None, d_newbalance_dest = None, d_is_fraud = None,
      d_is_flagged_fraud = None, d_found = None\<rparr>"

subsection \<open>Python idioms\<close>

text \<open>\<^verbatim>\<open>d.get(k, dflt) or dflt\<close> on a number: an absent key and the falsy value 0 both give the default.\<close>

definition get_or :: "'a::zero option \<Rightarrow> 'a \<Rightarrow> 'a" where
  "get_or v dflt = (case v of None \<Rightarrow> dflt | Some x \<Rightarrow> if x = 0 then dflt else x)"

text \<open>\<^verbatim>\<open>d.get(k) or ""\<close> on a string, and \<^verbatim>\<open>bool(d.get(k, False))\<close>.\<close>

definition get_str :: "string option \<Rightarrow> string" where
  "get_str v = (case v of None \<Rightarrow> [] | Some s \<Rightarrow> s)"

definition get_bool :: "bool option \<Rightarrow> bool" where
  "get_bool v = (case v of None \<Rightarrow> False | Some b \<Rightarrow> b)"

text \<open>\<^verbatim>\<open>d.get(k, []) or []\<close> on a list.\<close>

definition get_list :: "'a list option \<Rightarrow> 'a list" where
  "get_list v = (case v of None \<Rightarrow> [] | Some xs \<Rightarrow> xs)"

text \<open>Truth value of a transaction dictionary: a \<^verbatim>\<open>dict\<close> is falsy exactly when it has no key.\<close>

definition dict_nonempty :: "tx_dict \<Rightarrow> bool" where
  "dict_nonempty t \<longleftrightarrow> t \<noteq> empty_tx_dict"

definition truthy_tx :: "tx_dict option \<Rightarrow> bool" where
  "truthy_tx tx = (case tx of None \<Rightarrow> False | Some t \<Rightarrow> dict_nonempty t)"

text \<open>\<^verbatim>\<open>str.upper\<close> on ASCII letters; other bytes are left alone.\<close>

definition upper_char :: "char \<Rightarrow> char" where
  "upper_char c =
     (case map_of (zip ''abcdefghijklmnopqrstuvwxyz'' ''ABCDEFGHIJKLMNOPQRSTUVWXYZ'') c of
        None \<Rightarrow> c
      | Some u \<Rightarrow> u)"

definition upper :: "string \<Rightarrow> string" where
  "upper s = map upper_char s"

text \<open>\<^verbatim>\<open>str(n)\<close> for an integer.\<close>

definition digit_char :: "nat \<Rightarrow> char" where
  "digit_char d = ''0123456789'' ! d"

function str_nat :: "nat \<Rightarrow> string" where
  "str_nat n = (if n < 10 then [digit_char n] else str_nat (n div 10) @ [digit_char (n mod 10)])"
  by pat_completeness auto
termination
  by (relation "measure (\<lambda>n. n)") auto

declare str_nat.simps [simp del]

definition str_int :: "int \<Rightarrow> string" where
  "str_int i = (if i < 0 then CHR ''-'' # str_nat (nat (- i)) else str_nat (nat i))"

section \<open>The scoring engine (\<^verbatim>\<open>src/ui/app.py\<close>)\<close>

text \<open>UTF-8 bytes of the accented letters and of the sign "greater or equal".\<close>

definition e_acute :: string where
  "e_acute = [CHR 0xC3, CHR 0xA9]"

definition E_acute :: string where
  "E_acute = [CHR 0xC3, CHR 0x89]"

definition ge_sign :: string where
  "ge_sign = [CHR 0xE2, CHR 0x89, CHR 0xA5]"

definition risk_label :: "int \<Rightarrow> string" where
  "risk_label score =
     (if score \<ge> 80 then E_acute @ ''lev'' @ e_acute
      else if score \<ge> 50 then ''Mod'' @ e_acute @ ''r'' @ e_acute
      else ''Faible'')"

text \<open>
  One entry of \<^verbatim>\<open>breakdown\<close>. The explanation text \<^verbatim>\<open>why\<close> of an entry, and the \<^verbatim>\<open>bullets\<close>,
  \<^verbatim>\<open>next_actions\<close> and \<^verbatim>\<open>note\<close> of the result, are presentation built with the float
  formatting of \<^verbatim>\<open>fmt_eur\<close>; they are not part of the model.
\<close>

record rule_entry =
  rule :: string
  points :: int
  triggered :: bool

record insights =
  score :: int
  title :: string
  breakdown :: "rule_entry list"

text \<open>
  \<^verbatim>\<open>add_rule\<close> is a closure over the running \<^verbatim>\<open>score\<close> and the \<^verbatim>\<open>breakdown\<close> list; the pair
  of both is passed explicitly.
\<close>

type_synonym scoring = "int \<times> rule_entry list"

definition add_rule :: "string \<Rightarrow> int \<Rightarrow> bool \<Rightarrow> scoring \<Rightarrow> scoring" where
  "add_rule r pts trig st =
     ((if trig then fst st + pts else fst st),
      snd st @ [\<lparr>rule = r, points = (if trig then pts else 0), triggered = trig\<rparr>])"

text \<open>The local \<^verbatim>\<open>tx_points\<close>: the sub-total of the signal on the consulted transaction.\<close>

definition tx_points :: "real \<Rightarrow> tx_dict option \<Rightarrow> int" where
  "tx_points min_amount tx =
     (case tx of
        None \<Rightarrow> 0
      | Some t \<Rightarrow>
          if \<not> dict_nonempty t then 0
          else
            (let tt = upper (get_str (d_type t));
                 amt = get_or (d_amount t) 0;
                 fraud = get_bool (d_is_fraud t);
                 oldb = get_or (d_oldbalance_org t) 0;
                 newb = get_or (d_newbalance_org t) 0;
                 p1 = (if fraud then 0 + 15 else 0);
                 p2 = (if (tt = ''TRANSFER'' \<or> tt = ''CASH_OUT'') \<and> oldb > 0 \<and> newb = 0
                       then p1 + 10 else p1);
                 p3 = (if amt \<ge> min_amount then p2 + 10 else p2)
             in p3))"

definition rule_names :: "string list" where
  "rule_names =
     [''Concentration des sorties'',
      ''Montant moyen sortant '' @ e_acute @ ''lev'' @ e_acute,
      ''Au moins 1 match d'' @ e_acute @ ''tect'' @ e_acute,
      ''Plusieurs matchs ('' @ ge_sign @ '' 3)'',
      ''Fraude labellis'' @ e_acute @ ''e (dataset)'',
      ''D'' @ e_acute @ ''s'' @ e_acute @ ''quilibre (aucune entr'' @ e_acute @ ''e)'',
      ''Signal sur la transaction consult'' @ e_acute @ ''e'']"

text \<open>
  The locals read from the arguments: \<^verbatim>\<open>out_\<close>, \<^verbatim>\<open>in_\<close>, \<^verbatim>\<open>matches\<close> and \<^verbatim>\<open>min_amount\<close>. The
  threshold falls back to 200000 when the key is absent and also when it holds 0.
  (\<^verbatim>\<open>window_steps\<close> is read the same way and used in the explanation texts only.)
\<close>

definition kpi_out_of :: "kpi option \<Rightarrow> kpi_out" where
  "kpi_out_of kpi_arg =
     (case kpi_arg of
        None \<Rightarrow> empty_kpi_out
      | Some k \<Rightarrow> (case k_out k of None \<Rightarrow> empty_kpi_out | Some d \<Rightarrow> d))"

definition kpi_in_of :: "kpi option \<Rightarrow> kpi_in" where
  "kpi_in_of kpi_arg =
     (case kpi_arg of
        None \<Rightarrow> empty_kpi_in
      | Some k \<Rightarrow> (case k_in k of None \<Rightarrow> empty_kpi_in | Some d \<Rightarrow> d))"

definition matches_of :: "suspicious option \<Rightarrow> match list" where
  "matches_of suspicious_arg =
     (case suspicious_arg of None \<Rightarrow> [] | Some s \<Rightarrow> get_list (s_matches s))"

definition min_amount_of :: "suspicious option \<Rightarrow> real" where
  "min_amount_of suspicious_arg =
     (case suspicious_arg of None \<Rightarrow> 200000 | Some s \<Rightarrow> get_or (s_min_amount s) 200000)"

definition build_insights :: "kpi option \<Rightarrow> suspicious option \<Rightarrow> tx_dict option \<Rightarrow> insights" where
  "build_insights kpi_arg suspicious_arg tx =
     (let out_d = kpi_out_of kpi_arg;
          in_d = kpi_in_of kpi_arg;
          nb_out' = get_or (nb_out out_d) 0;
          total_out' = get_or (total_out out_d) 0;
          avg_out = get_or (avg_out_amount out_d) 0;
          fraud_out' = get_or (fraud_out out_d) 0;
          total_in' = get_or (total_in in_d) 0;
          matches = matches_of suspicious_arg;
          min_amount = min_amount_of suspicious_arg;
          st0 = (0, []);
          st1 = add_rule (rule_names ! 0) 25 (nb_out' \<le> 2 \<and> total_out' \<ge> min_amount) st0;
          st2 = add_rule (rule_names ! 1) 20 (avg_out \<ge> min_amount \<and> nb_out' > 0) st1;
          st3 = add_rule (rule_names ! 2) 25 (length matches \<ge> 1) st2;
          st4 = add_rule (rule_names ! 3) 10 (length matches \<ge> 3) st3;
          st5 = add_rule (rule_names ! 4) 25 (fraud_out' > 0) st4;
          st6 = add_rule (rule_names ! 5) 10 (total_in' = 0 \<and> total_out' > 0) st5;
          txp = tx_points min_amount tx;
          st7 = add_rule (rule_names ! 6) (min txp 20) (truthy_tx tx \<and> txp > 0) st6;
          score' = min (fst st7) 100
      in \<lparr>score = score',
          title = ''Risque global: **'' @ risk_label score' @ ''** (score '' @ str_int score'
                  @ ''/100)'',
          breakdown = snd st7\<rparr>)"

section \<open>The server (\<^verbatim>\<open>src/server/mcp_server_paysim.py\<close>)\<close>

subsection \<open>Errors, SQL and Python primitives\<close>

text \<open>
  The exceptions that the modelled code can raise: \<^verbatim>\<open>int(...)\<close> on text that is not an integer,
  an index out of range, a division by zero, and an error reported by the database for a
  query it rejects (PostgreSQL refuses a negative \<^verbatim>\<open>LIMIT\<close>).
\<close>

datatype error = ValueError | IndexError | ZeroDivisionError | DatabaseError

text \<open>\<^verbatim>\<open>a / b\<close> with an integer divisor.\<close>

definition truediv :: "real \<Rightarrow> int \<Rightarrow> error + real" where
  "truediv a b = (if b = 0 then Inl ZeroDivisionError else Inr (a / of_int b))"

text \<open>\<^verbatim>\<open>COUNT(*) FILTER (WHERE p)\<close> and \<^verbatim>\<open>COALESCE(SUM(amount) FILTER (WHERE p), 0)\<close>.\<close>

definition sql_count :: "(transaction \<Rightarrow> bool) \<Rightarrow> table \<Rightarrow> int" where
  "sql_count p db = int (length (filter p db))"

definition sql_sum_amount :: "(transaction \<Rightarrow> bool) \<Rightarrow> table \<Rightarrow> real" where
  "sql_sum_amount p db = sum_list (map amount (filter p db))"

definition between :: "int \<Rightarrow> int \<Rightarrow> int \<Rightarrow> bool" where
  "between x lo hi \<longleftrightarrow> lo \<le> x \<and> x \<le> hi"

text \<open>
  \<^verbatim>\<open>ORDER BY amount DESC\<close>. SQL leaves the order of rows with equal amounts open; the model
  keeps them in table order.
\<close>

definition order_by_amount_desc :: "table \<Rightarrow> table" where
  "order_by_amount_desc rows = sort_key (\<lambda>r. - amount r) rows"

text \<open>\<^verbatim>\<open>LIMIT n\<close>.\<close>

definition sql_limit :: "int \<Rightarrow> 'a list \<Rightarrow> error + 'a list" where
  "sql_limit n rows = (if n < 0 then Inl DatabaseError else Inr (take (nat n) rows))"










subsection \<open>\<^verbatim>\<open>resource_read\<close>\<close>







subsection \<open>\<^verbatim>\<open>tool_get_account_kpi\<close>\<close>

text \<open>
  For the two tools the account name is taken to be free of NUL characters, so that the driver
  accepts it as a parameter.
\<close>

text \<open>
  The second query: outgoing rows of the range grouped by type, the five most frequent types
  first.
\<close>

definition top_out_types :: "table \<Rightarrow> (string \<times> int) list" where
  "top_out_types rows =
     take 5 (sort_key (\<lambda>tc. - snd tc)
               (map (\<lambda>t. (t, int (length (filter (\<lambda>r. ttype r = t) rows))))
                    (remdups (map ttype rows))))"

definition tool_get_account_kpi ::
    "table \<Rightarrow> string \<Rightarrow> int option \<Rightarrow> int option \<Rightarrow> error + kpi" where
  "tool_get_account_kpi db name step_from_arg step_to_arg =
     (let step_from = (case step_from_arg of None \<Rightarrow> 1 | Some v \<Rightarrow> v);
          step_to = (case step_to_arg of None \<Rightarrow> 200 | Some v \<Rightarrow> v);
          in_range = (\<lambda>r. between (step r) step_from step_to);
          nb_out' = sql_count (\<lambda>r. name_orig r = name \<and> in_range r) db;
          total_out' = sql_sum_amount (\<lambda>r. name_orig r = name \<and> in_range r) db;
          nb_in' = sql_count (\<lambda>r. name_dest r = name \<and> in_range r) db;
          total_in' = sql_sum_amount (\<lambda>r. name_dest r = name \<and> in_range r) db;
          fraud_out' = sql_count (\<lambda>r. name_orig r = name \<and> is_fraud r \<and> in_range r) db;
          top_types = top_out_types (filter (\<lambda>r. name_orig r = name \<and> in_range r) db)
      in case (if nb_out' \<noteq> 0 then truediv total_out' nb_out' else Inr 0) of
           Inl e \<Rightarrow> Inl e
         | Inr avg_out \<Rightarrow>
             (case (if nb_in' \<noteq> 0 then truediv total_in' nb_in' else Inr 0) of
                Inl e \<Rightarrow> Inl e
              | Inr avg_in \<Rightarrow>
                  Inr \<lparr>k_name = Some name, k_step_from = Some step_from,
                       k_step_to = Some step_to,
                       k_out = Some \<lparr>nb_out = Some nb_out', total_out = Some total_out',
                                      avg_out_amount = Some avg_out,
                                      fraud_out = Some fraud_out'\<rparr>,
                       k_in = Some \<lparr>nb_in = Some nb_in', total_in = Some total_in',
                                     avg_in_amount = Some avg_in\<rparr>,
                       k_top_out_types = Some top_types\<rparr>))"

subsection \<open>\<^verbatim>\<open>tool_detect_suspicious\<close>\<close>

text \<open>The \<^verbatim>\<open>WHERE\<close> clause of the detector's query: the candidate rows.\<close>

definition candidates :: "table \<Rightarrow> string \<Rightarrow> real \<Rightarrow> table" where
  "candidates db name min_amount =
     filter (\<lambda>r. name_orig r = name \<and> amount r \<ge> min_amount
                 \<and> (ttype r = ''TRANSFER'' \<or> ttype r = ''CASH_OUT'')) db"

text \<open>The columns selected by the query, as the loop over \<^verbatim>\<open>rows\<close> stores them.\<close>

definition to_match :: "transaction \<Rightarrow> match" where
  "to_match r =
     \<lparr>m_id = tx_id r, m_step = step r, m_type = ttype r, m_amount = amount r,
      m_name_orig = name_orig r, m_name_dest = name_dest r, m_is_fraud = is_fraud r\<rparr>"

definition tool_detect_suspicious ::
    "table \<Rightarrow> string \<Rightarrow> real option \<Rightarrow> int option \<Rightarrow> int option \<Rightarrow> error + suspicious" where
  "tool_detect_suspicious db name min_amount_arg window_steps_arg max_rows_arg =
     (let min_amount = (case min_amount_arg of None \<Rightarrow> 200000 | Some v \<Rightarrow> v);
          window_steps = (case window_steps_arg of None \<Rightarrow> 10 | Some v \<Rightarrow> v);
          max_rows = (case max_rows_arg of None \<Rightarrow> 10 | Some v \<Rightarrow> v)
      in case sql_limit max_rows (order_by_amount_desc (candidates db name min_amount)) of
           Inl e \<Rightarrow> Inl e
         | Inr rows \<Rightarrow>
             Inr \<lparr>s_name = Some name, s_min_amount = Some min_amount,
                  s_window_steps = Some window_steps, s_max_rows = Some max_rows,
                  s_matches = Some (map to_match rows)\<rparr>)"

section \<open>Example inputs\<close>

text \<open>The end-to-end scenarios of the specification, used to evaluate the statements below.\<close>

definition kpi_scenario1 :: kpi where
  "kpi_scenario1 =
     \<lparr>k_name = Some ''C1000'', k_step_from = Some 1, k_step_to = Some 200,
      k_out = Some \<lparr>nb_out = Some 1, total_out = Some 500000, avg_out_amount = Some 500000,
                     fraud_out = Some 0\<rparr>,
      k_in = Some \<lparr>nb_in = Some 0, total_in = Some 0, avg_in_amount = Some 0\<rparr>,
      k_top_out_types = Some [(''TRANSFER'', 1)]\<rparr>"

definition det_scenario1 :: suspicious where
  "det_scenario1 =
     \<lparr>s_name = Some ''C1000'', s_min_amount = Some 200000, s_window_steps = Some 10,
      s_max_rows = Some 10, s_matches = Some []\<rparr>"

definition tx_scenario4 :: tx_dict where
  "tx_scenario4 =
     \<lparr>d_id = Some 7, d_step = Some 1, d_type = Some ''TRANSFER'', d_amount = Some 300000,
      d_name_orig = Some ''C1000'', d_oldbalance_org = Some 1000, d_newbalance_org = Some 0,
      d_name_dest = Some ''C2000'', d_oldbalance_dest = Some 0, d_newbalance_dest = Some 0,
      d_is_fraud = Some True, d_is_flagged_fraud = Some False, d_found = None\<rparr>"

definition det_scenario2 :: suspicious where
  "det_scenario2 =
     \<lparr>s_name = Some ''C1000'', s_min_amount = Some 200000, s_window_steps = Some 10,
      s_max_rows = Some 10,
      s_matches = Some (replicate 4
        \<lparr>m_id = 7, m_step = 1, m_type = ''TRANSFER'', m_amount = 300000,
         m_name_orig = ''C1000'', m_name_dest = ''C2000'', m_is_fraud = False\<rparr>)\<rparr>"

text \<open>A KPI record with a labelled fraud, for an input on which all seven rules fire.\<close>

definition kpi_fraud :: kpi where
  "kpi_fraud =
     \<lparr>k_name = Some ''C1000'', k_step_from = Some 1, k_step_to = Some 200,
      k_out = Some \<lparr>nb_out = Some 1, total_out = Some 500000, avg_out_amount = Some 500000,
                     fraud_out = Some 1\<rparr>,
      k_in = Some \<lparr>nb_in = Some 0, total_in = Some 0, avg_in_amount = Some 0\<rparr>,
      k_top_out_types = Some [(''TRANSFER'', 1)]\<rparr>"

text \<open>A small table: four outgoing rows of account C1000, one of another account.\<close>

definition mk_row :: "int \<Rightarrow> int \<Rightarrow> string \<Rightarrow> real \<Rightarrow> string \<Rightarrow> string \<Rightarrow> bool \<Rightarrow> transaction" where
  "mk_row i st ty amt orig dest fraud =
     \<lparr>tx_id = i, step = st, ttype = ty, amount = amt, name_orig = orig,
      oldbalance_org = amt, newbalance_org = 0, name_dest = dest,
      oldbalance_dest = 0, newbalance_dest = amt, is_fraud = fraud,
      is_flagged_fraud = False\<rparr>"

definition example_db :: table where
  "example_db =
     [mk_row 1 1 ''TRANSFER'' 250000 ''C1000'' ''C2000'' False,
      mk_row 2 3 ''PAYMENT'' 900000 ''C1000'' ''M3000'' False,
      mk_row 3 40 ''CASH_OUT'' 700000 ''C1000'' ''C2000'' True,
      mk_row 4 90 ''TRANSFER'' 300000 ''C1000'' ''C4000'' False,
      mk_row 5 7 ''TRANSFER'' 800000 ''C5000'' ''C1000'' False]"

section \<open>Properties of the scoring engine\<close>

lemma add_rule_alt:
  "add_rule r p t st =
     (fst st + (if t then p else 0),
      snd st @ [\<lparr>rule = r, points = (if t then p else 0), triggered = t\<rparr>])"
  by (simp add: add_rule_def)

lemma tx_points_nonneg: "0 \<le> tx_points m tx"
  by (simp add: tx_points_def Let_def split: option.splits)

lemma build_insights_shape [case_names shape]:
  obtains c1 c2 c3 c4 c5 c6 where
    "breakdown (build_insights k s tx) =
       [\<lparr>rule = rule_names ! 0, points = (if c1 then 25 else 0), triggered = c1\<rparr>,
        \<lparr>rule = rule_names ! 1, points = (if c2 then 20 else 0), triggered = c2\<rparr>,
        \<lparr>rule = rule_names ! 2, points = (if c3 then 25 else 0), triggered = c3\<rparr>,
        \<lparr>rule = rule_names ! 3, points = (if c4 then 10 else 0), triggered = c4\<rparr>,
        \<lparr>rule = rule_names ! 4, points = (if c5 then 25 else 0), triggered = c5\<rparr>,
        \<lparr>rule = rule_names ! 5, points = (if c6 then 10 else 0), triggered = c6\<rparr>,
        \<lparr>rule = rule_names ! 6,
         points = (if truthy_tx tx \<and> tx_points (min_amount_of s) tx > 0
                   then min (tx_points (min_amount_of s) tx) 20 else 0),
         triggered = (truthy_tx tx \<and> tx_points (min_amount_of s) tx > 0)\<rparr>]"
    "score (build_insights k s tx) =
       min (0 + (if c1 then 25 else 0) + (if c2 then 20 else 0) + (if c3 then 25 else 0)
            + (if c4 then 10 else 0) + (if c5 then 25 else 0) + (if c6 then 10 else 0)
            + (if truthy_tx tx \<and> tx_points (min_amount_of s) tx > 0
               then min (tx_points (min_amount_of s) tx) 20 else 0)) 100"
proof -
  have "\<exists>c1 c2 c3 c4 c5 c6.
     breakdown (build_insights k s tx) =
       [\<lparr>rule = rule_names ! 0, points = (if c1 then 25 else 0), triggered = c1\<rparr>,
        \<lparr>rule = rule_names ! 1, points = (if c2 then 20 else 0), triggered = c2\<rparr>,
        \<lparr>rule = rule_names ! 2, points = (if c3 then 25 else 0), triggered = c3\<rparr>,
        \<lparr>rule = rule_names ! 3, points = (if c4 then 10 else 0), triggered = c4\<rparr>,
        \<lparr>rule = rule_names ! 4, points = (if c5 then 25 else 0), triggered = c5\<rparr>,
        \<lparr>rule = rule_names ! 5, points = (if c6 then 10 else 0), triggered = c6\<rparr>,
        \<lparr>rule = rule_names ! 6,
         points = (if truthy_tx tx \<and> tx_points (min_amount_of s) tx > 0
                   then min (tx_points (min_amount_of s) tx) 20 else 0),
         triggered = (truthy_tx tx \<and> tx_points (min_amount_of s) tx > 0)\<rparr>] \<and>
     score (build_insights k s tx) =
       min (0 + (if c1 then 25 else 0) + (if c2 then 20 else 0) + (if c3 then 25 else 0)
            + (if c4 then 10 else 0) + (if c5 then 25 else 0) + (if c6 then 10 else 0)
            + (if truthy_tx tx \<and> tx_points (min_amount_of s) tx > 0
               then min (tx_points (min_amount_of s) tx) 20 else 0)) 100"
    unfolding build_insights_def Let_def add_rule_alt
    apply (simp only: insights.simps fst_conv snd_conv append_Nil append_Cons)
    apply (rule exI)+
    apply (rule conjI)
     apply (rule refl)
    apply (rule refl)
    done
  then show thesis using that by blast
qed

lemma scenario1_locals:
  "kpi_out_of (Some kpi_scenario1) =
     \<lparr>nb_out = Some 1, total_out = Some 500000, avg_out_amount = Some 500000, fraud_out = Some 0\<rparr>"
  "kpi_in_of (Some kpi_scenario1) = \<lparr>nb_in = Some 0, total_in = Some 0, avg_in_amount = Some 0\<rparr>"
  "matches_of (Some det_scenario1) = []"
  "min_amount_of (Some det_scenario1) = 200000"
  by (simp_all add: kpi_out_of_def kpi_in_of_def matches_of_def min_amount_of_def
      kpi_scenario1_def det_scenario1_def get_list_def get_or_def)

lemma tx_points_None: "tx_points m None = 0"
  by (simp add: tx_points_def)

lemma tx_scenario4_points: "dict_nonempty tx_scenario4" "tx_points 200000 (Some tx_scenario4) = 35"
  by (simp_all add: tx_points_def dict_nonempty_def tx_scenario4_def empty_tx_dict_def
      get_str_def get_or_def get_bool_def upper_def upper_char_def Let_def)

text \<open>
  Claim C1. For every KPI record, detection result and optional transaction, the score is an
  integer between 0 and 100: the points of the rules are added up and the sum is cut off at 100.
\<close>

theorem score_in_range:
  "0 \<le> score (build_insights k s tx) \<and> score (build_insights k s tx) \<le> 100 \<and>
   score (build_insights k s tx) =
     min (sum_list (map points (breakdown (build_insights k s tx)))) 100"
proof (cases rule: build_insights_shape [of k s tx])
  case (shape c1 c2 c3 c4 c5 c6)
  note b = shape(1) and sc = shape(2)
  define p7 where "p7 = (if truthy_tx tx \<and> tx_points (min_amount_of s) tx > 0
               then min (tx_points (min_amount_of s) tx) 20 else 0)"
  have p7: "0 \<le> p7" using tx_points_nonneg [of "min_amount_of s" tx] by (simp add: p7_def)
  have n: "0 \<le> (if c then (p::int) else 0)" if "0 \<le> p" for c p using that by simp
  have "0 \<le> 0 + (if c1 then 25 else 0) + (if c2 then 20 else 0) + (if c3 then 25 else (0::int))
            + (if c4 then 10 else 0) + (if c5 then 25 else 0) + (if c6 then 10 else 0) + p7"
    by (intro add_nonneg_nonneg n p7) simp_all
  then have "0 \<le> score (build_insights k s tx)"
    unfolding sc p7_def by simp
  moreover have "score (build_insights k s tx) \<le> 100" unfolding sc by simp
  moreover have "score (build_insights k s tx) =
     min (sum_list (map points (breakdown (build_insights k s tx)))) 100"
    unfolding sc b by (simp split del: if_split add: add.assoc)
  ultimately show ?thesis by blast
qed

text \<open>The cut-off is reached: on an input where all seven rules fire the points add up to 135.\<close>

lemma score_saturation_example:
  "sum_list (map points
     (breakdown (build_insights (Some kpi_fraud) (Some det_scenario2) (Some tx_scenario4)))) = 135 \<and>
   score (build_insights (Some kpi_fraud) (Some det_scenario2) (Some tx_scenario4)) = 100"
proof -
  have l: "kpi_out_of (Some kpi_fraud) =
     \<lparr>nb_out = Some 1, total_out = Some 500000, avg_out_amount = Some 500000, fraud_out = Some 1\<rparr>"
    "kpi_in_of (Some kpi_fraud) = \<lparr>nb_in = Some 0, total_in = Some 0, avg_in_amount = Some 0\<rparr>"
    "min_amount_of (Some det_scenario2) = 200000"
    "length (matches_of (Some det_scenario2)) = 4"
    by (simp_all add: kpi_out_of_def kpi_in_of_def matches_of_def min_amount_of_def
        kpi_fraud_def det_scenario2_def get_list_def get_or_def)
  show ?thesis
    unfolding build_insights_def Let_def add_rule_alt l
    by (simp add: get_or_def truthy_tx_def tx_scenario4_points)
qed

text \<open>
  Claim C10. Every breakdown entry that is not triggered carries 0 points, and the score is the
  minimum of 100 and the sum of the points of all breakdown entries.
\<close>

theorem breakdown_consistent:
  "list_all (\<lambda>e. triggered e \<or> points e = 0) (breakdown (build_insights k s tx)) \<and>
   score (build_insights k s tx) =
     min 100 (sum_list (map points (breakdown (build_insights k s tx))))"
proof (cases rule: build_insights_shape [of k s tx])
  case (shape c1 c2 c3 c4 c5 c6)
  note b = shape(1) and sc = shape(2)
  have "list_all (\<lambda>e. triggered e \<or> points e = 0) (breakdown (build_insights k s tx))"
    unfolding b by simp
  moreover have "score (build_insights k s tx) =
     min 100 (sum_list (map points (breakdown (build_insights k s tx))))"
    unfolding sc b by (simp split del: if_split add: add.assoc min.commute)
  ultimately show ?thesis by blast
qed

text \<open>
  Claim C2, as amended. The breakdown always has exactly seven entries, one per rule R1 to R7 in
  this order, whether or not a transaction is supplied; without a transaction the seventh entry
  (the signal on the consulted transaction) is present with 0 points and not triggered.
\<close>

theorem breakdown_always_seven:
  "length (breakdown (build_insights k s tx)) = 7 \<and>
   map rule (breakdown (build_insights k s tx)) = rule_names \<and>
   breakdown (build_insights k s None) ! 6 =
     \<lparr>rule = rule_names ! 6, points = 0, triggered = False\<rparr>"
proof -
  have "length (breakdown (build_insights k s tx)) = 7 \<and>
   map rule (breakdown (build_insights k s tx)) = rule_names"
    by (cases rule: build_insights_shape [of k s tx]) (simp add: rule_names_def)
  moreover have "breakdown (build_insights k s None) ! 6 =
     \<lparr>rule = rule_names ! 6, points = 0, triggered = False\<rparr>"
    by (cases rule: build_insights_shape [of k s None]) (simp add: truthy_tx_def)
  ultimately show ?thesis by blast
qed

text \<open>
  Claim C2 as stated fails: without a transaction the breakdown of scenario 1 does not have six
  entries, and its last entry is the one of the transaction signal.
\<close>

theorem breakdown_not_six_without_tx:
  "length (breakdown (build_insights (Some kpi_scenario1) (Some det_scenario1) None)) \<noteq> 6 \<and>
   rule (last (breakdown (build_insights (Some kpi_scenario1) (Some det_scenario1) None)))
     = ''Signal sur la transaction consult'' @ e_acute @ ''e''"
  by (cases rule: build_insights_shape [of "Some kpi_scenario1" "Some det_scenario1" None])
     (simp add: rule_names_def)

text \<open>
  Claim C3. Scenario 1 (one outgoing transaction of 500000, nothing incoming, threshold 200000,
  no match, no transaction): exactly R1 (25), R2 (20) and R6 (10) fire, the score is 55 and the
  title carries the label of the middle tier.
\<close>

theorem scenario1_score_55:
  "score (build_insights (Some kpi_scenario1) (Some det_scenario1) None) = 55 \<and>
   map (\<lambda>e. (triggered e, points e))
       (breakdown (build_insights (Some kpi_scenario1) (Some det_scenario1) None)) =
     [(True, 25), (True, 20), (False, 0), (False, 0), (False, 0), (True, 10), (False, 0)] \<and>
   title (build_insights (Some kpi_scenario1) (Some det_scenario1) None) =
     ''Risque global: **Mod'' @ e_acute @ ''r'' @ e_acute @ ''** (score 55/100)'' \<and>
   risk_label 55 = ''Mod'' @ e_acute @ ''r'' @ e_acute"
  unfolding build_insights_def Let_def add_rule_alt scenario1_locals
  by (simp add: get_or_def tx_points_None truthy_tx_def risk_label_def str_int_def
      str_nat.simps digit_char_def)




lemma if_mono_points:
  "(c \<longrightarrow> c') \<Longrightarrow> 0 \<le> (p::int) \<Longrightarrow> (if c then p else 0) \<le> (if c' then p else 0)"
  by simp

text \<open>
  Claim C7. If every rule triggered for a first input is triggered for a second one, and the
  sub-points of R7 of the second are at least those of the first, then the score of the second is
  at least the score of the first.
\<close>

theorem score_monotone:
  assumes sup: "list_all2 (\<lambda>a b. a \<longrightarrow> b)
                  (map triggered (breakdown (build_insights k1 s1 tx1)))
                  (map triggered (breakdown (build_insights k2 s2 tx2)))"
    and r7: "tx_points (min_amount_of s1) tx1 \<le> tx_points (min_amount_of s2) tx2"
  shows "score (build_insights k1 s1 tx1) \<le> score (build_insights k2 s2 tx2)"
proof (cases rule: build_insights_shape [of k1 s1 tx1])
  case a: (shape a1 a2 a3 a4 a5 a6)
  show ?thesis
  proof (cases rule: build_insights_shape [of k2 s2 tx2])
    case b: (shape b1 b2 b3 b4 b5 b6)
    define p where "p = (if truthy_tx tx1 \<and> tx_points (min_amount_of s1) tx1 > 0
               then min (tx_points (min_amount_of s1) tx1) 20 else 0)"
    define q where "q = (if truthy_tx tx2 \<and> tx_points (min_amount_of s2) tx2 > 0
               then min (tx_points (min_amount_of s2) tx2) 20 else 0)"
    from sup have imp: "a1 \<longrightarrow> b1" "a2 \<longrightarrow> b2" "a3 \<longrightarrow> b3" "a4 \<longrightarrow> b4" "a5 \<longrightarrow> b5" "a6 \<longrightarrow> b6"
      and imp7: "truthy_tx tx1 \<and> tx_points (min_amount_of s1) tx1 > 0 \<longrightarrow>
                 truthy_tx tx2 \<and> tx_points (min_amount_of s2) tx2 > 0"
      unfolding a(1) b(1) by simp_all
    have pq: "p \<le> q"
      using imp7 r7 tx_points_nonneg [of "min_amount_of s2" tx2] unfolding p_def q_def by auto
    have "0 + (if a1 then 25 else 0) + (if a2 then 20 else 0) + (if a3 then 25 else 0)
            + (if a4 then 10 else 0) + (if a5 then 25 else 0) + (if a6 then 10 else 0) + p
          \<le> 0 + (if b1 then 25 else 0) + (if b2 then 20 else 0) + (if b3 then 25 else 0)
            + (if b4 then 10 else 0) + (if b5 then 25 else 0) + (if b6 then 10 else (0::int)) + q"
      by (intro add_mono if_mono_points imp pq) simp_all
    then show ?thesis
      unfolding a(2) b(2) p_def q_def by (rule min.mono) simp
  qed
qed

theorem score_monotone_witness:
  "list_all2 (\<lambda>a b. a \<longrightarrow> b)
     (map triggered (breakdown (build_insights (Some kpi_scenario1) (Some det_scenario1) None)))
     (map triggered (breakdown (build_insights (Some kpi_scenario1) (Some det_scenario2)
                                   (Some tx_scenario4)))) \<and>
   tx_points (min_amount_of (Some det_scenario1)) None
     \<le> tx_points (min_amount_of (Some det_scenario2)) (Some tx_scenario4) \<and>
   score (build_insights (Some kpi_scenario1) (Some det_scenario1) None)
     \<le> score (build_insights (Some kpi_scenario1) (Some det_scenario2) (Some tx_scenario4))"
proof -
  have m2: "min_amount_of (Some det_scenario2) = 200000" "length (matches_of (Some det_scenario2)) = 4"
    by (simp_all add: min_amount_of_def matches_of_def det_scenario2_def get_or_def get_list_def)
  have h1: "list_all2 (\<lambda>a b. a \<longrightarrow> b)
     (map triggered (breakdown (build_insights (Some kpi_scenario1) (Some det_scenario1) None)))
     (map triggered (breakdown (build_insights (Some kpi_scenario1) (Some det_scenario2)
                                   (Some tx_scenario4))))"
    unfolding build_insights_def Let_def add_rule_alt scenario1_locals m2
    by (simp add: get_or_def tx_points_None truthy_tx_def tx_scenario4_points)
  have h2: "tx_points (min_amount_of (Some det_scenario1)) None
     \<le> tx_points (min_amount_of (Some det_scenario2)) (Some tx_scenario4)"
    by (simp add: scenario1_locals m2 tx_points_None tx_scenario4_points)
  from score_monotone [OF h1 h2] h1 h2 show ?thesis by blast
qed

section \<open>Properties of the server\<close>

subsection \<open>Resource lookups\<close>











subsection \<open>KPI aggregator and detector\<close>

lemma sql_count_nonneg: "0 \<le> sql_count p db"
  by (simp add: sql_count_def)

text \<open>
  Claim C9. For every account and step range the KPI aggregator returns (no division error), and
  each average is the total divided by the count when the count is positive and 0 when the count
  is 0.
\<close>

theorem kpi_averages_guarded:
  "\<exists>r ko ki nbo tot nbi tin.
     tool_get_account_kpi db name step_from_arg step_to_arg = Inr r \<and>
     k_out r = Some ko \<and> k_in r = Some ki \<and>
     nb_out ko = Some nbo \<and> total_out ko = Some tot \<and>
     nb_in ki = Some nbi \<and> total_in ki = Some tin \<and>
     nbo = sql_count (\<lambda>r. name_orig r = name \<and>
             between (step r) (case step_from_arg of None \<Rightarrow> 1 | Some v \<Rightarrow> v)
                              (case step_to_arg of None \<Rightarrow> 200 | Some v \<Rightarrow> v)) db \<and>
     tot = sql_sum_amount (\<lambda>r. name_orig r = name \<and>
             between (step r) (case step_from_arg of None \<Rightarrow> 1 | Some v \<Rightarrow> v)
                              (case step_to_arg of None \<Rightarrow> 200 | Some v \<Rightarrow> v)) db \<and>
     nbi = sql_count (\<lambda>r. name_dest r = name \<and>
             between (step r) (case step_from_arg of None \<Rightarrow> 1 | Some v \<Rightarrow> v)
                              (case step_to_arg of None \<Rightarrow> 200 | Some v \<Rightarrow> v)) db \<and>
     tin = sql_sum_amount (\<lambda>r. name_dest r = name \<and>
             between (step r) (case step_from_arg of None \<Rightarrow> 1 | Some v \<Rightarrow> v)
                              (case step_to_arg of None \<Rightarrow> 200 | Some v \<Rightarrow> v)) db \<and>
     0 \<le> nbo \<and> 0 \<le> nbi \<and>
     avg_out_amount ko = Some (if 0 < nbo then tot / of_int nbo else 0) \<and>
     avg_in_amount ki = Some (if 0 < nbi then tin / of_int nbi else 0)"
proof -
  define lo where "lo = (case step_from_arg of None \<Rightarrow> (1::int) | Some v \<Rightarrow> v)"
  define hi where "hi = (case step_to_arg of None \<Rightarrow> (200::int) | Some v \<Rightarrow> v)"
  define nbo where "nbo = sql_count (\<lambda>r. name_orig r = name \<and> between (step r) lo hi) db"
  define nbi where "nbi = sql_count (\<lambda>r. name_dest r = name \<and> between (step r) lo hi) db"
  have o: "0 \<le> nbo" and i: "0 \<le> nbi" by (simp_all add: nbo_def nbi_def sql_count_nonneg)
  show ?thesis
    using o i
    unfolding tool_get_account_kpi_def Let_def truediv_def
      lo_def [symmetric] hi_def [symmetric] nbo_def [symmetric] nbi_def [symmetric]
    by (cases "nbo = 0"; cases "nbi = 0") simp_all
qed





lemma detect_Inr:
  "0 \<le> (case mr of None \<Rightarrow> 10 | Some v \<Rightarrow> v) \<Longrightarrow>
   tool_detect_suspicious db name ma ws mr =
     Inr \<lparr>s_name = Some name,
          s_min_amount = Some (case ma of None \<Rightarrow> 200000 | Some v \<Rightarrow> v),
          s_window_steps = Some (case ws of None \<Rightarrow> 10 | Some v \<Rightarrow> v),
          s_max_rows = Some (case mr of None \<Rightarrow> 10 | Some v \<Rightarrow> v),
          s_matches = Some (map to_match
            (take (nat (case mr of None \<Rightarrow> 10 | Some v \<Rightarrow> v))
               (order_by_amount_desc
                  (candidates db name (case ma of None \<Rightarrow> 200000 | Some v \<Rightarrow> v)))))\<rparr>"
  by (simp add: tool_detect_suspicious_def Let_def sql_limit_def)

lemma detect_Inl:
  "(case mr of None \<Rightarrow> 10 | Some v \<Rightarrow> v) < 0 \<Longrightarrow>
   tool_detect_suspicious db name ma ws mr = Inl DatabaseError"
  by (simp add: tool_detect_suspicious_def Let_def sql_limit_def)

text \<open>A parameter that is left out behaves as its default given explicitly.\<close>

lemma detect_defaults:
  "tool_detect_suspicious db name ma ws mr =
     tool_detect_suspicious db name
       (Some (case ma of None \<Rightarrow> 200000 | Some v \<Rightarrow> v))
       (Some (case ws of None \<Rightarrow> 10 | Some v \<Rightarrow> v))
       (Some (case mr of None \<Rightarrow> 10 | Some v \<Rightarrow> v))"
  by (simp add: tool_detect_suspicious_def)


text \<open>
  Claim C6. Two invocations of the detector that differ only in \<^verbatim>\<open>window_steps\<close> return the
  same result except for the echoed \<^verbatim>\<open>window_steps\<close>, which is each invocation's own value
  (10 when none is given): in particular the match lists are identical.
\<close>

theorem window_steps_not_a_filter:
  assumes "tool_detect_suspicious db name ma ws mr = Inr res"
  shows "tool_detect_suspicious db name ma ws' mr =
           Inr (res\<lparr>s_window_steps := Some (case ws' of None \<Rightarrow> 10 | Some v \<Rightarrow> v)\<rparr>) \<and>
         s_window_steps res = Some (case ws of None \<Rightarrow> 10 | Some v \<Rightarrow> v)"
proof (cases "0 \<le> (case mr of None \<Rightarrow> 10 | Some v \<Rightarrow> v)")
  case True
  with assms show ?thesis
    unfolding detect_Inr [OF True] by auto
next
  case False
  then have "tool_detect_suspicious db name ma ws mr = Inl DatabaseError"
    by (simp add: detect_Inl)
  with assms show ?thesis by simp
qed

lemma example_candidates:
  "candidates example_db ''C1000'' 200000 =
     [mk_row 1 1 ''TRANSFER'' 250000 ''C1000'' ''C2000'' False,
      mk_row 3 40 ''CASH_OUT'' 700000 ''C1000'' ''C2000'' True,
      mk_row 4 90 ''TRANSFER'' 300000 ''C1000'' ''C4000'' False]"
  by (simp add: candidates_def example_db_def mk_row_def)

lemma example_detect:
  "tool_detect_suspicious example_db ''C1000'' (Some 200000) ws (Some 2) =
     Inr \<lparr>s_name = Some ''C1000'', s_min_amount = Some 200000,
          s_window_steps = Some (case ws of None \<Rightarrow> 10 | Some v \<Rightarrow> v),
          s_max_rows = Some 2,
          s_matches = Some (map to_match
             [mk_row 3 40 ''CASH_OUT'' 700000 ''C1000'' ''C2000'' True,
              mk_row 4 90 ''TRANSFER'' 300000 ''C1000'' ''C4000'' False])\<rparr>"
proof -
  have "order_by_amount_desc (candidates example_db ''C1000'' 200000) =
     [mk_row 3 40 ''CASH_OUT'' 700000 ''C1000'' ''C2000'' True,
      mk_row 4 90 ''TRANSFER'' 300000 ''C1000'' ''C4000'' False,
      mk_row 1 1 ''TRANSFER'' 250000 ''C1000'' ''C2000'' False]"
    unfolding example_candidates by (simp add: order_by_amount_desc_def mk_row_def)
  then show ?thesis
    using detect_Inr [of "Some 2" example_db "''C1000''" "Some 200000" ws] by simp
qed


theorem window_steps_not_a_filter_witness:
  "tool_detect_suspicious example_db ''C1000'' (Some 200000) (Some 10) (Some 2) =
     Inr \<lparr>s_name = Some ''C1000'', s_min_amount = Some 200000, s_window_steps = Some 10,
          s_max_rows = Some 2,
          s_matches = Some (map to_match
             [mk_row 3 40 ''CASH_OUT'' 700000 ''C1000'' ''C2000'' True,
              mk_row 4 90 ''TRANSFER'' 300000 ''C1000'' ''C4000'' False])\<rparr> \<and>
   tool_detect_suspicious example_db ''C1000'' (Some 200000) (Some 1) (Some 2) =
     Inr \<lparr>s_name = Some ''C1000'', s_min_amount = Some 200000, s_window_steps = Some 1,
          s_max_rows = Some 2,
          s_matches = Some (map to_match
             [mk_row 3 40 ''CASH_OUT'' 700000 ''C1000'' ''C2000'' True,
              mk_row 4 90 ''TRANSFER'' 300000 ''C1000'' ''C4000'' False])\<rparr>"
proof -
  have a: "tool_detect_suspicious example_db ''C1000'' (Some 200000) (Some 10) (Some 2) =
     Inr \<lparr>s_name = Some ''C1000'', s_min_amount = Some 200000, s_window_steps = Some 10,
          s_max_rows = Some 2,
          s_matches = Some (map to_match
             [mk_row 3 40 ''CASH_OUT'' 700000 ''C1000'' ''C2000'' True,
              mk_row 4 90 ''TRANSFER'' 300000 ''C1000'' ''C4000'' False])\<rparr>"
    using example_detect [of "Some 10"] by simp
  from window_steps_not_a_filter [OF a, of "Some 1"] a show ?thesis by simp
qed

lemma kpi_example_unknown_account:
  "tool_get_account_kpi example_db ''C404'' None None =
     Inr \<lparr>k_name = Some ''C404'', k_step_from = Some 1, k_step_to = Some 200,
          k_out = Some \<lparr>nb_out = Some 0, total_out = Some 0, avg_out_amount = Some 0,
                         fraud_out = Some 0\<rparr>,
          k_in = Some \<lparr>nb_in = Some 0, total_in = Some 0, avg_in_amount = Some 0\<rparr>,
          k_top_out_types = Some []\<rparr>"
  by (simp add: tool_get_account_kpi_def Let_def sql_count_def sql_sum_amount_def
      example_db_def mk_row_def top_out_types_def)

lemma kpi_example_known_account:
  "tool_get_account_kpi example_db ''C1000'' (Some 1) (Some 50) =
     Inr \<lparr>k_name = Some ''C1000'', k_step_from = Some 1, k_step_to = Some 50,
          k_out = Some \<lparr>nb_out = Some 3, total_out = Some 1850000,
                         avg_out_amount = Some (1850000 / 3), fraud_out = Some 1\<rparr>,
          k_in = Some \<lparr>nb_in = Some 1, total_in = Some 800000,
                        avg_in_amount = Some 800000\<rparr>,
          k_top_out_types = Some [(''TRANSFER'', 1), (''PAYMENT'', 1), (''CASH_OUT'', 1)]\<rparr>"
  by (simp add: tool_get_account_kpi_def Let_def sql_count_def sql_sum_amount_def
      example_db_def mk_row_def top_out_types_def between_def truediv_def)

end
